theory Spec2Isabelle
  imports Main
begin

section \<open>Synthetic module records (src/objects/synthetic-module.cc)\<close>

text \<open>
  A shallow embedding of \<^verbatim>\<open>SyntheticModule\<close>: the export table with its Cells, the module
  status, and the evaluation of the host-supplied evaluation steps. Heap objects with an
  identity (Cells, promises, modules) live in explicit stores of the isolate, indexed by
  address; every operation takes the isolate and returns the updated one. A failed
  \<^verbatim>\<open>CHECK\<close> aborts the process and is the value \<open>Fatal\<close>.
\<close>

subsection \<open>Values and heap objects\<close>

type_synonym addr = nat

datatype ErrorType = ReferenceError | SyntaxError

datatype MessageTemplate = kModuleExportUndefined | kUnresolvableExport

text \<open>
  Tagged values. A \<open>Cell\<close> or a \<open>JSPromise\<close> is a reference into the isolate's store,
  so two handles are the same object exactly when the addresses are equal. \<open>TheHole\<close> is the
  sentinel a hash-table lookup returns for an absent key. An error object carries its
  constructor, its message template and the template's string arguments.
\<close>

datatype object =
    Undefined
  | TheHole
  | Smi int
  | StringObj string
  | Cell addr
  | JSPromise addr
  | JSError ErrorType MessageTemplate "string list"

fun IsCell :: "object \<Rightarrow> bool" where
  "IsCell (Cell a) = True"
| "IsCell _ = False"

fun IsJSPromise :: "object \<Rightarrow> bool" where
  "IsJSPromise (JSPromise a) = True"
| "IsJSPromise _ = False"

fun IsTheHole :: "object \<Rightarrow> bool" where
  "IsTheHole TheHole = True"
| "IsTheHole _ = False"

datatype PromiseState = kPending | kFulfilled | kRejected

record JSPromise_fields =
  promise_status :: PromiseState
  promise_result :: object

record MessageLocation =
  start_pos :: int
  end_pos :: int

text \<open>
  Modelled from the spec: the \<^verbatim>\<open>Module::Status\<close> enumeration is declared in module.h,
  which is not part of the sources at hand. The spec's section 4.2 lists the states
  in this order; the three enumerators the source names (\<^verbatim>\<open>kLinked\<close>, \<^verbatim>\<open>kEvaluating\<close>,
  \<^verbatim>\<open>kEvaluated\<close>) keep their names.
\<close>

datatype Status = kUnlinked | kLinking | kLinked | kEvaluating | kEvaluated | kErrored

fun status_rank :: "Status \<Rightarrow> nat" where
  "status_rank kUnlinked = 0"
| "status_rank kLinking = 1"
| "status_rank kLinked = 2"
| "status_rank kEvaluating = 3"
| "status_rank kEvaluated = 4"
| "status_rank kErrored = 5"

text \<open>
  Modelled from the spec: \<^verbatim>\<open>ObjectHashTable\<close> (hash-table.h is not part of the sources at
  hand), "a unique-key mapping" from export name to value. \<open>Lookup\<close> answers the hole
  for an absent key, which is what the source tests with \<^verbatim>\<open>IsTheHole\<close> and \<^verbatim>\<open>IsCell\<close>.
\<close>

type_synonym ObjectHashTable = "string \<rightharpoonup> object"

definition Lookup :: "ObjectHashTable \<Rightarrow> string \<Rightarrow> object" where
  "Lookup table key = (case table key of None \<Rightarrow> TheHole | Some v \<Rightarrow> v)"

definition Put :: "ObjectHashTable \<Rightarrow> string \<Rightarrow> object \<Rightarrow> ObjectHashTable" where
  "Put table key v = table(key \<mapsto> v)"

text \<open>
  The fields of a \<^verbatim>\<open>SyntheticModule\<close> that the source reads or writes. The evaluation
  steps are stored as the address of a native function.
\<close>

record SyntheticModule =
  export_names :: "string list"
  exports :: ObjectHashTable
  status :: Status
  exception :: object
  top_level_capability :: object
  evaluation_steps :: addr

record Isolate =
  modules :: "addr \<Rightarrow> SyntheticModule"
  cells :: "addr \<rightharpoonup> object"
  promises :: "addr \<rightharpoonup> JSPromise_fields"
  next_address :: addr
  native_context :: addr
  scheduled_exception :: object
  pending_exception :: object
  pending_location :: "MessageLocation option"

datatype 'a outcome = Fatal | Done 'a

subsection \<open>Collaborators of the isolate\<close>

text \<open>
  The factory, the exception surface of the isolate, the promise engine and the accessors
  of \<^verbatim>\<open>Module\<close> are defined outside the sources at hand. Each is modelled as the plain
  operation the spec's section 6 names. Allocation hands out the isolate's next address
  and advances it, so an address at or above \<open>next_address\<close> has never been handed out.
  A typed handle (\<^verbatim>\<open>Handle<Cell>\<close>, \<^verbatim>\<open>Handle<JSPromise>\<close>) is the address itself.
\<close>

text \<open>Modelled from the spec: \<^verbatim>\<open>Factory::NewCell\<close>, "allocation of a Cell"; the new Cell
  holds undefined.\<close>

definition NewCell :: "Isolate \<Rightarrow> addr \<times> Isolate" where
  "NewCell isolate =
     (let a = next_address isolate
      in (a, isolate\<lparr>cells := (cells isolate)(a \<mapsto> Undefined), next_address := Suc a\<rparr>))"

text \<open>Modelled from the spec: \<^verbatim>\<open>Cell::set_value\<close>, "set of its contained value".\<close>

definition Cell_set_value :: "Isolate \<Rightarrow> addr \<Rightarrow> object \<Rightarrow> Isolate" where
  "Cell_set_value isolate a v = isolate\<lparr>cells := (cells isolate)(a \<mapsto> v)\<rparr>"

text \<open>Modelled from the spec: \<^verbatim>\<open>Factory::NewJSPromise\<close>, "construction of a new pending
  capability".\<close>

definition NewJSPromise :: "Isolate \<Rightarrow> addr \<times> Isolate" where
  "NewJSPromise isolate =
     (let a = next_address isolate
      in (a, isolate\<lparr>promises := (promises isolate)
                        (a \<mapsto> \<lparr>promise_status = kPending, promise_result = Undefined\<rparr>),
                     next_address := Suc a\<rparr>))"

text \<open>Modelled from the spec: \<^verbatim>\<open>JSPromise::Resolve\<close>, "resolution of it with a given value":
  the promise is fulfilled with the value, and the call answers undefined. (The source
  only ever resolves with undefined, which is not a thenable.)\<close>

definition JSPromise_Resolve :: "Isolate \<Rightarrow> addr \<Rightarrow> object \<Rightarrow> object option \<times> Isolate" where
  "JSPromise_Resolve isolate a resolution =
     (Some Undefined,
      isolate\<lparr>promises := (promises isolate)
                 (a \<mapsto> \<lparr>promise_status = kFulfilled, promise_result = resolution\<rparr>)\<rparr>)"

text \<open>Modelled from the spec: \<^verbatim>\<open>Factory::NewReferenceError\<close>, an error "carrying a kind tag
  and contextual arguments".\<close>

definition NewReferenceError :: "MessageTemplate \<Rightarrow> string \<Rightarrow> object" where
  "NewReferenceError template arg0 = JSError ReferenceError template [arg0]"

text \<open>Modelled from the spec: \<^verbatim>\<open>Factory::NewSyntaxError\<close>, likewise with two arguments.\<close>

definition NewSyntaxError :: "MessageTemplate \<Rightarrow> string \<Rightarrow> string \<Rightarrow> object" where
  "NewSyntaxError template arg0 arg1 = JSError SyntaxError template [arg0, arg1]"

text \<open>Modelled from the spec: \<^verbatim>\<open>Isolate::Throw\<close>, "a mechanism to raise a typed, localizable
  error": the error becomes the isolate's pending exception, with the location if one is
  given.\<close>

definition Throw :: "Isolate \<Rightarrow> object \<Rightarrow> MessageLocation option \<Rightarrow> Isolate" where
  "Throw isolate exc loc = isolate\<lparr>pending_exception := exc, pending_location := loc\<rparr>"

text \<open>Modelled from the spec: \<^verbatim>\<open>Isolate::ThrowAt\<close> throws at the location and answers the
  empty handle.\<close>

definition ThrowAt :: "Isolate \<Rightarrow> object \<Rightarrow> MessageLocation \<Rightarrow> object option \<times> Isolate" where
  "ThrowAt isolate exc loc = (None, Throw isolate exc (Some loc))"

text \<open>Modelled from the spec: \<^verbatim>\<open>Isolate::PromoteScheduledException\<close>, to "propagate the
  currently pending error across the host-call boundary": the exception the host scheduled
  becomes the pending one.\<close>

definition PromoteScheduledException :: "Isolate \<Rightarrow> Isolate" where
  "PromoteScheduledException isolate =
     isolate\<lparr>scheduled_exception := TheHole,
             pending_exception := scheduled_exception isolate\<rparr>"

text \<open>A write through a module handle: the module at that address is replaced.\<close>

definition update_module ::
  "Isolate \<Rightarrow> addr \<Rightarrow> (SyntheticModule \<Rightarrow> SyntheticModule) \<Rightarrow> Isolate" where
  "update_module isolate module f =
     isolate\<lparr>modules := (modules isolate)(module := f (modules isolate module))\<rparr>"

text \<open>Modelled from the spec: \<^verbatim>\<open>Module::SetStatus\<close> (module.cc is not part of the sources
  at hand) stores the new status.\<close>

definition SetStatus :: "Isolate \<Rightarrow> addr \<Rightarrow> Status \<Rightarrow> Isolate" where
  "SetStatus isolate module new_status =
     update_module isolate module (\<lambda>m. m\<lparr>status := new_status\<rparr>)"

text \<open>Modelled from the spec: the field setter \<^verbatim>\<open>set_exports\<close>.\<close>

definition set_exports :: "Isolate \<Rightarrow> addr \<Rightarrow> ObjectHashTable \<Rightarrow> Isolate" where
  "set_exports isolate module table =
     update_module isolate module (\<lambda>m. m\<lparr>exports := table\<rparr>)"

text \<open>Modelled from the spec: the field setter \<^verbatim>\<open>set_top_level_capability\<close>.\<close>

definition set_top_level_capability :: "Isolate \<Rightarrow> addr \<Rightarrow> object \<Rightarrow> Isolate" where
  "set_top_level_capability isolate module capability =
     update_module isolate module (\<lambda>m. m\<lparr>top_level_capability := capability\<rparr>)"

text \<open>Modelled from the spec: \<^verbatim>\<open>Module::RecordError\<close> (module.cc is not part of the sources
  at hand) moves the module into the absorbing \<open>Errored\<close> state and stores the triggering
  error value on it.\<close>

definition RecordError :: "Isolate \<Rightarrow> addr \<Rightarrow> object \<Rightarrow> Isolate" where
  "RecordError isolate module error =
     update_module isolate module (\<lambda>m. m\<lparr>status := kErrored, exception := error\<rparr>)"

subsection \<open>SetExport, SetExportStrict, ResolveExport\<close>

definition SetExport ::
  "Isolate \<Rightarrow> addr \<Rightarrow> string \<Rightarrow> object \<Rightarrow> bool option \<times> Isolate" where
  "SetExport isolate module export_name export_value =
     (let table = exports (modules isolate module);
          export_object = Lookup table export_name
      in case export_object of
           Cell a \<Rightarrow> (Some True, Cell_set_value isolate a export_value)
         | _ \<Rightarrow> (None,
                 Throw isolate (NewReferenceError kModuleExportUndefined export_name) None))"

definition SetExportStrict :: "Isolate \<Rightarrow> addr \<Rightarrow> string \<Rightarrow> object \<Rightarrow> Isolate outcome" where
  "SetExportStrict isolate module export_name export_value =
     (let table = exports (modules isolate module);
          export_object = Lookup table export_name
      in if \<not> IsCell export_object then Fatal
         else case SetExport isolate module export_name export_value of
                (None, isolate') \<Rightarrow> Fatal
              | (Some set_export_result, isolate') \<Rightarrow>
                  if set_export_result then Done isolate' else Fatal)"

definition ResolveExport ::
  "Isolate \<Rightarrow> addr \<Rightarrow> string \<Rightarrow> string \<Rightarrow> MessageLocation \<Rightarrow> bool
     \<Rightarrow> object option \<times> Isolate" where
  "ResolveExport isolate module module_specifier export_name loc must_resolve =
     (let obj = Lookup (exports (modules isolate module)) export_name
      in if IsCell obj then (Some obj, isolate)
         else if \<not> must_resolve then (None, isolate)
         else ThrowAt isolate
                (NewSyntaxError kUnresolvableExport module_specifier export_name) loc)"

subsection \<open>PrepareInstantiate, FinishInstantiate\<close>

text \<open>
  The loop over \<^verbatim>\<open>export_names\<close>: each round allocates a Cell, checks that the name has no
  entry yet, and puts the Cell under the name.
\<close>

fun PrepareInstantiate_loop ::
  "Isolate \<Rightarrow> ObjectHashTable \<Rightarrow> string list \<Rightarrow> (ObjectHashTable \<times> Isolate) outcome" where
  "PrepareInstantiate_loop isolate table [] = Done (table, isolate)"
| "PrepareInstantiate_loop isolate table (name # rest) =
     (case NewCell isolate of
        (cell, isolate') \<Rightarrow>
          if \<not> IsTheHole (Lookup table name) then Fatal
          else PrepareInstantiate_loop isolate' (Put table name (Cell cell)) rest)"

definition PrepareInstantiate :: "Isolate \<Rightarrow> addr \<Rightarrow> addr \<Rightarrow> (bool \<times> Isolate) outcome" where
  "PrepareInstantiate isolate module context =
     (let table = exports (modules isolate module);
          names = export_names (modules isolate module)
      in case PrepareInstantiate_loop isolate table names of
           Fatal \<Rightarrow> Fatal
         | Done (table', isolate') \<Rightarrow> Done (True, set_exports isolate' module table'))"

definition FinishInstantiate :: "Isolate \<Rightarrow> addr \<Rightarrow> bool \<times> Isolate" where
  "FinishInstantiate isolate module = (True, SetStatus isolate module kLinked)"

subsection \<open>Evaluate\<close>

text \<open>
  The host's evaluation steps: a native function taking the context and the module, which
  may read and write the isolate (it is expected to call \<open>SetExport\<close>), and returns a value
  or an empty handle after scheduling an exception. It may also abort the process.
\<close>

type_synonym SyntheticModuleEvaluationSteps =
  "addr \<Rightarrow> addr \<Rightarrow> Isolate \<Rightarrow> (object option \<times> Isolate) outcome"

text \<open>
  \<open>FUNCTION_CAST\<close> is the native code memory: it turns the stored address into the function
  found there. After a successful call the capability is either the returned promise
  itself or a new promise resolved with undefined; one write stores it on the module.
\<close>

definition Evaluate ::
  "(addr \<Rightarrow> SyntheticModuleEvaluationSteps) \<Rightarrow> Isolate \<Rightarrow> addr
     \<Rightarrow> (object option \<times> Isolate) outcome" where
  "Evaluate FUNCTION_CAST isolate module =
     (let isolate1 = SetStatus isolate module kEvaluating;
          steps = FUNCTION_CAST (evaluation_steps (modules isolate1 module))
      in case steps (native_context isolate1) module isolate1 of
           Fatal \<Rightarrow> Fatal
         | Done (None, isolate2) \<Rightarrow>
             (let isolate3 = PromoteScheduledException isolate2
              in Done (None, RecordError isolate3 module (pending_exception isolate3)))
         | Done (Some result_from_callback, isolate2) \<Rightarrow>
             (let isolate3 = SetStatus isolate2 module kEvaluated
              in case (if IsJSPromise result_from_callback
                       then Done (result_from_callback, isolate3)
                       else (case NewJSPromise isolate3 of
                               (promise, isolate4) \<Rightarrow>
                                 (case JSPromise_Resolve isolate4 promise Undefined of
                                    (None, isolate5) \<Rightarrow> Fatal
                                  | (Some u, isolate5) \<Rightarrow> Done (JSPromise promise, isolate5)))) of
                   Fatal \<Rightarrow> Fatal
                 | Done (capability, isolate6) \<Rightarrow>
                     Done (Some result_from_callback,
                           set_top_level_capability isolate6 module capability)))"

section \<open>Concrete modules: the scenarios of the spec's section 8\<close>

text \<open>
  A module declaring the exports \<open>a\<close> and \<open>b\<close> in an otherwise empty isolate, as the
  factory creates it: empty export table, status \<open>Unlinked\<close>, no recorded error (the hole),
  no top-level capability (undefined). The module lives at address 0.
\<close>

definition scenario_module :: SyntheticModule where
  "scenario_module =
     \<lparr>export_names = [''a'', ''b''], exports = Map.empty, status = kUnlinked,
      exception = TheHole, top_level_capability = Undefined, evaluation_steps = 0\<rparr>"

definition scenario_isolate :: Isolate where
  "scenario_isolate =
     \<lparr>modules = (\<lambda>_. scenario_module), cells = Map.empty, promises = Map.empty,
      next_address = 0, native_context = 0, scheduled_exception = TheHole,
      pending_exception = TheHole, pending_location = None\<rparr>"

text \<open>The same module once its two Cells exist, at a given status, error and capability.\<close>

definition scenario_instantiated :: "Status \<Rightarrow> object \<Rightarrow> object \<Rightarrow> SyntheticModule" where
  "scenario_instantiated st exc capability =
     \<lparr>export_names = [''a'', ''b''], exports = [''a'' \<mapsto> Cell 0, ''b'' \<mapsto> Cell 1],
      status = st, exception = exc, top_level_capability = capability,
      evaluation_steps = 0\<rparr>"

definition scenario_prepared :: Isolate where
  "scenario_prepared =
     scenario_isolate
       \<lparr>modules := (\<lambda>_. scenario_module)
          (0 := scenario_instantiated kUnlinked TheHole Undefined),
        cells := [0 \<mapsto> Undefined, 1 \<mapsto> Undefined],
        next_address := 2\<rparr>"

definition scenario_linked :: Isolate where
  "scenario_linked =
     scenario_prepared
       \<lparr>modules := (\<lambda>_. scenario_module)
          (0 := scenario_instantiated kLinked TheHole Undefined)\<rparr>"

text \<open>Scenario A: the host calls \<open>SetExportStrict(module, "a", 42)\<close> and returns 7.\<close>

definition host_sets_a :: SyntheticModuleEvaluationSteps where
  "host_sets_a context module isolate =
     (case SetExportStrict isolate module ''a'' (Smi 42) of
        Fatal \<Rightarrow> Fatal
      | Done isolate' \<Rightarrow> Done (Some (Smi 7), isolate'))"

definition scenario_A_host :: Isolate where
  "scenario_A_host =
     scenario_linked
       \<lparr>modules := (\<lambda>_. scenario_module)
          (0 := scenario_instantiated kEvaluating TheHole Undefined),
        cells := (cells scenario_linked)(0 \<mapsto> Smi 42)\<rparr>"

definition scenario_A_evaluated :: Isolate where
  "scenario_A_evaluated =
     scenario_A_host
       \<lparr>modules := (\<lambda>_. scenario_module)
          (0 := scenario_instantiated kEvaluated TheHole (JSPromise 2)),
        promises := [2 \<mapsto> \<lparr>promise_status = kFulfilled, promise_result = Undefined\<rparr>],
        next_address := 3\<rparr>"


text \<open>Scenario B: the host throws \<open>"boom"\<close>, that is, schedules it and returns nothing.\<close>

definition host_throws :: SyntheticModuleEvaluationSteps where
  "host_throws context module isolate =
     Done (None, isolate\<lparr>scheduled_exception := StringObj ''boom''\<rparr>)"

definition scenario_B_host :: Isolate where
  "scenario_B_host =
     scenario_linked
       \<lparr>modules := (\<lambda>_. scenario_module)
          (0 := scenario_instantiated kEvaluating TheHole Undefined),
        scheduled_exception := StringObj ''boom''\<rparr>"

definition scenario_B_failed :: Isolate where
  "scenario_B_failed =
     scenario_B_host
       \<lparr>modules := (\<lambda>_. scenario_module)
          (0 := scenario_instantiated kErrored (StringObj ''boom'') Undefined),
        scheduled_exception := TheHole,
        pending_exception := StringObj ''boom''\<rparr>"

text \<open>Scenario C: the host makes a pending promise of its own and returns it.\<close>

definition host_returns_promise :: SyntheticModuleEvaluationSteps where
  "host_returns_promise context module isolate =
     (case NewJSPromise isolate of (p, isolate') \<Rightarrow> Done (Some (JSPromise p), isolate'))"

definition scenario_C_host :: Isolate where
  "scenario_C_host =
     scenario_linked
       \<lparr>modules := (\<lambda>_. scenario_module)
          (0 := scenario_instantiated kEvaluating TheHole Undefined),
        promises := [2 \<mapsto> \<lparr>promise_status = kPending, promise_result = Undefined\<rparr>],
        next_address := 3\<rparr>"

definition scenario_C_evaluated :: Isolate where
  "scenario_C_evaluated =
     scenario_C_host
       \<lparr>modules := (\<lambda>_. scenario_module)
          (0 := scenario_instantiated kEvaluated TheHole (JSPromise 2))\<rparr>"

text \<open>A host that reports, as its result, the rank of the status it finds the module in.\<close>

definition host_reports_status :: SyntheticModuleEvaluationSteps where
  "host_reports_status context module isolate =
     Done (Some (Smi (int (status_rank (status (modules isolate module))))), isolate)"

definition source_location :: MessageLocation where
  "source_location = \<lparr>start_pos = 10, end_pos = 20\<rparr>"

section \<open>Properties of the operations\<close>

subsection \<open>The export table\<close>

lemma Lookup_Put: "Lookup (Put table k v) k' = (if k' = k then v else Lookup table k')"
  by (simp add: Lookup_def Put_def)

lemma empty_table_hole: "IsTheHole (Lookup Map.empty n)"
  by (simp add: Lookup_def)

lemma SetExport_no_cell:
  "\<not> IsCell (Lookup (exports (modules isolate module)) export_name) \<Longrightarrow>
   SetExport isolate module export_name v =
     (None, isolate\<lparr>pending_exception :=
                       JSError ReferenceError kModuleExportUndefined [export_name],
                     pending_location := None\<rparr>)"
  by (cases "Lookup (exports (modules isolate module)) export_name")
     (simp_all add: SetExport_def Throw_def NewReferenceError_def)

lemma SetExport_cell:
  "Lookup (exports (modules isolate module)) export_name = Cell c \<Longrightarrow>
   SetExport isolate module export_name v =
     (Some True, isolate\<lparr>cells := (cells isolate)(c \<mapsto> v)\<rparr>)"
  by (simp add: SetExport_def Cell_set_value_def)

lemma SetExport_modules: "modules (snd (SetExport isolate module export_name v)) = modules isolate"
  by (cases "Lookup (exports (modules isolate module)) export_name")
     (simp_all add: SetExport_def Throw_def Cell_set_value_def)

lemma ResolveExport_cell:
  "Lookup (exports (modules isolate module)) export_name = Cell c \<Longrightarrow>
   ResolveExport isolate module sp export_name loc mr = (Some (Cell c), isolate)"
  by (simp add: ResolveExport_def)

lemma ResolveExport_no_cell:
  "\<not> IsCell (Lookup (exports (modules isolate module)) export_name) \<Longrightarrow>
   ResolveExport isolate module sp export_name loc mr =
     (if mr then (None, isolate\<lparr>pending_exception :=
                                   JSError SyntaxError kUnresolvableExport [sp, export_name],
                                 pending_location := Some loc\<rparr>)
      else (None, isolate))"
  by (simp add: ResolveExport_def ThrowAt_def Throw_def NewSyntaxError_def)

lemma ResolveExport_fst:
  "fst (ResolveExport isolate module sp export_name loc mr) =
     (if IsCell (Lookup (exports (modules isolate module)) export_name)
      then Some (Lookup (exports (modules isolate module)) export_name) else None)"
  by (simp add: ResolveExport_def ThrowAt_def Let_def)

lemma ResolveExport_modules:
  "modules (snd (ResolveExport isolate module sp export_name loc mr)) = modules isolate"
  by (simp add: ResolveExport_def ThrowAt_def Throw_def Let_def)

subsection \<open>The instantiation loop\<close>

text \<open>
  The loop ends in \<open>Fatal\<close> exactly when a name is repeated or already has an entry;
  otherwise the table gains one Cell per name, at consecutive fresh addresses.
\<close>

lemma PrepareInstantiate_loop_char:
  "PrepareInstantiate_loop s table ns =
     (if distinct ns \<and> (\<forall>n\<in>set ns. IsTheHole (Lookup table n))
      then Done (table ++ map_of (zip ns (map Cell [next_address s..<next_address s + length ns])),
                 s\<lparr>cells := (\<lambda>a. if next_address s \<le> a \<and> a < next_address s + length ns
                                  then Some Undefined else cells s a),
                   next_address := next_address s + length ns\<rparr>)
      else Fatal)"
proof (induction ns arbitrary: s table)
  case Nil
  have "(\<lambda>a. if next_address s \<le> a \<and> a < next_address s then Some Undefined else cells s a)
        = cells s"
    by (auto simp: fun_eq_iff)
  then show ?case by simp
next
  case (Cons n rest)
  let ?a = "next_address s"
  let ?s1 = "s\<lparr>cells := (cells s)(?a \<mapsto> Undefined), next_address := Suc ?a\<rparr>"
  have new: "NewCell s = (?a, ?s1)"
    by (simp add: NewCell_def Let_def)
  show ?case
  proof (cases "IsTheHole (Lookup table n)")
    case False
    then show ?thesis by (auto simp: new)
  next
    case hole: True
    have cond: "(distinct rest \<and> (\<forall>k\<in>set rest. IsTheHole (Lookup (Put table n (Cell ?a)) k)))
                 = (distinct (n # rest) \<and> (\<forall>k\<in>set (n # rest). IsTheHole (Lookup table k)))"
      using hole by (auto simp: Lookup_Put)
    have step: "PrepareInstantiate_loop s table (n # rest)
                = PrepareInstantiate_loop ?s1 (Put table n (Cell ?a)) rest"
      using hole by (simp add: new)
    show ?thesis
    proof (cases "distinct (n # rest) \<and> (\<forall>k\<in>set (n # rest). IsTheHole (Lookup table k))")
      case bad: False
      with cond have bad':
        "\<not> (distinct rest \<and> (\<forall>k\<in>set rest. IsTheHole (Lookup (Put table n (Cell ?a)) k)))"
        by blast
      have "PrepareInstantiate_loop ?s1 (Put table n (Cell ?a)) rest = Fatal"
        by (subst Cons.IH) (rule if_not_P [OF bad'])
      with step have "PrepareInstantiate_loop s table (n # rest) = Fatal"
        by simp
      then show ?thesis
        by (simp only: if_not_P [OF bad])
    next
      case ok: True
      then have notin: "n \<notin> set rest" by simp
      define L where "L = [Suc ?a..<Suc ?a + length rest]"
      have l1: "[next_address ?s1..<next_address ?s1 + length rest] = L"
        by (simp add: L_def)
      have up: "[?a..<?a + length (n # rest)] = ?a # L"
        using upt_conv_Cons [of ?a "?a + length (n # rest)"] by (simp add: L_def)
      have none: "map_of (zip rest (map Cell L)) n = None"
        using notin by (simp add: L_def)
      have tab: "Put table n (Cell ?a) ++ map_of (zip rest (map Cell L))
                 = table ++ map_of (zip (n # rest) (map Cell (?a # L)))"
      proof
        fix k
        show "(Put table n (Cell ?a) ++ map_of (zip rest (map Cell L))) k
              = (table ++ map_of (zip (n # rest) (map Cell (?a # L)))) k"
          using none
          by (cases "k = n") (simp_all add: map_add_def Put_def split: option.splits)
      qed
      have st: "?s1\<lparr>cells := (\<lambda>a. if next_address ?s1 \<le> a \<and> a < next_address ?s1 + length rest
                                  then Some Undefined else cells ?s1 a),
                   next_address := next_address ?s1 + length rest\<rparr>
               = s\<lparr>cells := (\<lambda>a. if ?a \<le> a \<and> a < ?a + length (n # rest)
                                  then Some Undefined else cells s a),
                   next_address := ?a + length (n # rest)\<rparr>"
        by (auto simp: fun_eq_iff)
      from ok cond
      have c1: "distinct rest \<and> (\<forall>k\<in>set rest. IsTheHole (Lookup (Put table n (Cell ?a)) k))"
        by blast
      have "PrepareInstantiate_loop s table (n # rest)
            = PrepareInstantiate_loop ?s1 (Put table n (Cell ?a)) rest"
        by (rule step)
      also have "\<dots> = Done (Put table n (Cell ?a) ++
                   map_of (zip rest (map Cell [next_address ?s1..<next_address ?s1 + length rest])),
                 ?s1\<lparr>cells := (\<lambda>a. if next_address ?s1 \<le> a \<and> a < next_address ?s1 + length rest
                                  then Some Undefined else cells ?s1 a),
                   next_address := next_address ?s1 + length rest\<rparr>)"
        by (subst Cons.IH) (rule if_P [OF c1])
      also have "\<dots> = Done (table ++ map_of (zip (n # rest) (map Cell (?a # L))),
                 s\<lparr>cells := (\<lambda>a. if ?a \<le> a \<and> a < ?a + length (n # rest)
                                  then Some Undefined else cells s a),
                   next_address := ?a + length (n # rest)\<rparr>)"
        by (simp only: l1 tab st)
      finally show ?thesis
        by (simp only: if_P [OF ok] up)
    qed
  qed
qed

lemma PrepareInstantiate_char:
  "PrepareInstantiate s m context =
     (let ns = export_names (modules s m); table = exports (modules s m) in
      if distinct ns \<and> (\<forall>n\<in>set ns. IsTheHole (Lookup table n))
      then Done (True,
             set_exports
               (s\<lparr>cells := (\<lambda>a. if next_address s \<le> a \<and> a < next_address s + length ns
                                  then Some Undefined else cells s a),
                  next_address := next_address s + length ns\<rparr>) m
               (table ++ map_of (zip ns (map Cell [next_address s..<next_address s + length ns]))))
      else Fatal)"
  by (simp add: PrepareInstantiate_def PrepareInstantiate_loop_char Let_def)

lemma table_declared:
  assumes "distinct ns" "i < length ns"
  shows "(table ++ map_of (zip ns (map Cell [a..<a + length ns]))) (ns ! i) = Some (Cell (a + i))"
proof -
  have "map_of (zip ns (map Cell [a..<a + length ns])) (ns ! i)
        = Some (map Cell [a..<a + length ns] ! i)"
    using assms by (intro map_of_zip_nth) simp_all
  then show ?thesis using assms by (simp add: map_add_def)
qed

lemma table_undeclared:
  assumes "n \<notin> set ns"
  shows "(table ++ map_of (zip ns (map Cell [a..<a + length ns]))) n = table n"
proof -
  have none: "map_of (zip ns (map Cell [a..<a + length ns])) n = None"
    using assms by simp
  show ?thesis by (simp add: map_add_def none)
qed

lemma table_dom:
  "dom (table ++ map_of (zip ns (map Cell [a..<a + length ns]))) = dom table \<union> set ns"
  by (auto simp: dom_map_of_zip)

lemma PrepareInstantiate_fresh_module:
  assumes "distinct (export_names (modules s m))" "exports (modules s m) = Map.empty"
  shows "PrepareInstantiate s m context =
     Done (True,
       set_exports
         (s\<lparr>cells := (\<lambda>a. if next_address s \<le> a \<and>
                              a < next_address s + length (export_names (modules s m))
                            then Some Undefined else cells s a),
            next_address := next_address s + length (export_names (modules s m))\<rparr>) m
         (Map.empty ++ map_of (zip (export_names (modules s m))
            (map Cell [next_address s..<
                       next_address s + length (export_names (modules s m))]))))"
  using assms by (simp add: PrepareInstantiate_char Let_def empty_table_hole)

lemma PrepareInstantiate_Done:
  assumes "PrepareInstantiate s m context = Done (ok, s')"
  shows "distinct (export_names (modules s m))"
    and "\<forall>n\<in>set (export_names (modules s m)). IsTheHole (Lookup (exports (modules s m)) n)"
    and "ok = True"
    and "s' = set_exports
               (s\<lparr>cells := (\<lambda>a. if next_address s \<le> a \<and>
                                    a < next_address s + length (export_names (modules s m))
                                  then Some Undefined else cells s a),
                  next_address := next_address s + length (export_names (modules s m))\<rparr>) m
               (exports (modules s m) ++ map_of (zip (export_names (modules s m))
                  (map Cell [next_address s..<
                             next_address s + length (export_names (modules s m))])))"
  using assms by (simp_all add: PrepareInstantiate_char Let_def split: if_splits)

subsection \<open>Evaluation\<close>

lemma Evaluate_entry:
  "evaluation_steps (modules (SetStatus s m kEvaluating) m) = evaluation_steps (modules s m)"
  "native_context (SetStatus s m kEvaluating) = native_context s"
  by (simp_all add: SetStatus_def update_module_def)

lemma Evaluate_success:
  assumes "F (evaluation_steps (modules s m)) (native_context s) m (SetStatus s m kEvaluating)
           = Done (Some r, s2)"
  shows "Evaluate F s m =
     Done (Some r,
       if IsJSPromise r
       then s2\<lparr>modules := (modules s2)
                 (m := (modules s2 m)\<lparr>status := kEvaluated, top_level_capability := r\<rparr>)\<rparr>
       else s2\<lparr>modules := (modules s2)
                 (m := (modules s2 m)\<lparr>status := kEvaluated,
                                        top_level_capability := JSPromise (next_address s2)\<rparr>),
               promises := (promises s2)
                 (next_address s2 \<mapsto> \<lparr>promise_status = kFulfilled, promise_result = Undefined\<rparr>),
               next_address := Suc (next_address s2)\<rparr>)"
  unfolding Evaluate_def Let_def Evaluate_entry assms
  by (simp add: SetStatus_def set_top_level_capability_def update_module_def
      NewJSPromise_def JSPromise_Resolve_def Let_def)

lemma Evaluate_failure:
  assumes "F (evaluation_steps (modules s m)) (native_context s) m (SetStatus s m kEvaluating)
           = Done (None, s2)"
  shows "Evaluate F s m =
     Done (None,
       s2\<lparr>modules := (modules s2)
            (m := (modules s2 m)\<lparr>status := kErrored, exception := scheduled_exception s2\<rparr>),
          scheduled_exception := TheHole,
          pending_exception := scheduled_exception s2\<rparr>)"
  unfolding Evaluate_def Let_def Evaluate_entry assms
  by (simp add: RecordError_def PromoteScheduledException_def update_module_def)

lemma Evaluate_fatal:
  assumes "F (evaluation_steps (modules s m)) (native_context s) m (SetStatus s m kEvaluating)
           = Fatal"
  shows "Evaluate F s m = Fatal"
  unfolding Evaluate_def Let_def Evaluate_entry assms by simp

subsection \<open>Who writes the top-level capability\<close>




subsection \<open>The scenarios, run\<close>

lemmas scenario_defs = scenario_module_def scenario_isolate_def scenario_instantiated_def
  scenario_prepared_def scenario_linked_def scenario_A_host_def scenario_A_evaluated_def
  scenario_B_host_def scenario_B_failed_def scenario_C_host_def scenario_C_evaluated_def

lemma scenario_prepare:
  "PrepareInstantiate scenario_isolate 0 0 = Done (True, scenario_prepared)"
  by (simp add: PrepareInstantiate_def scenario_defs NewCell_def Lookup_def Put_def
      set_exports_def update_module_def Let_def numeral_2_eq_2)

lemma scenario_finish:
  "FinishInstantiate scenario_prepared 0 = (True, scenario_linked)"
  by (simp add: FinishInstantiate_def SetStatus_def update_module_def scenario_defs)

lemma scenario_A_steps:
  "host_sets_a (native_context scenario_linked) 0 (SetStatus scenario_linked 0 kEvaluating)
   = Done (Some (Smi 7), scenario_A_host)"
  by (simp add: host_sets_a_def SetExportStrict_def SetExport_def Cell_set_value_def
      Lookup_def SetStatus_def update_module_def scenario_defs Let_def)

lemma scenario_B_steps:
  "host_throws (native_context scenario_linked) 0 (SetStatus scenario_linked 0 kEvaluating)
   = Done (None, scenario_B_host)"
  by (simp add: host_throws_def SetStatus_def update_module_def scenario_defs)

lemma scenario_C_steps:
  "host_returns_promise (native_context scenario_linked) 0
     (SetStatus scenario_linked 0 kEvaluating)
   = Done (Some (JSPromise 2), scenario_C_host)"
  by (simp add: host_returns_promise_def NewJSPromise_def SetStatus_def update_module_def
      scenario_defs Let_def numeral_3_eq_3)

lemma scenario_A_evaluate:
  "Evaluate (\<lambda>_. host_sets_a) scenario_linked 0 = Done (Some (Smi 7), scenario_A_evaluated)"
  by (simp add: Evaluate_success [of "\<lambda>_. host_sets_a", OF scenario_A_steps])
     (simp add: scenario_defs numeral_3_eq_3)

lemma scenario_B_evaluate:
  "Evaluate (\<lambda>_. host_throws) scenario_linked 0 = Done (None, scenario_B_failed)"
  by (simp add: Evaluate_failure [of "\<lambda>_. host_throws", OF scenario_B_steps])
     (simp add: scenario_defs)

lemma scenario_C_evaluate:
  "Evaluate (\<lambda>_. host_returns_promise) scenario_linked 0
   = Done (Some (JSPromise 2), scenario_C_evaluated)"
  by (simp add: Evaluate_success [of "\<lambda>_. host_returns_promise", OF scenario_C_steps])
     (simp add: scenario_defs)


section \<open>The claims\<close>

text \<open>
  C10. \<open>FinishInstantiate\<close> is unconditional: whatever the status of the module, it
  answers true and the only change to the isolate is that the module's status is
  \<open>Linked\<close>. Nothing checks the status before: called on an \<open>Evaluated\<close> module it moves
  the status back to \<open>Linked\<close>.
\<close>

theorem FinishInstantiate_unconditional:
  "fst (FinishInstantiate isolate module) = True \<and>
   snd (FinishInstantiate isolate module) =
     isolate\<lparr>modules := (modules isolate)
                (module := (modules isolate module)\<lparr>status := kLinked\<rparr>)\<rparr> \<and>
   status (modules (snd (FinishInstantiate (SetStatus isolate module before) module)) module)
     = kLinked \<and>
   status_rank (status (modules
       (snd (FinishInstantiate (SetStatus isolate module kEvaluated) module)) module))
     < status_rank (status (modules (SetStatus isolate module kEvaluated) module))"
  by (simp add: FinishInstantiate_def SetStatus_def update_module_def)

text \<open>
  C4. \<open>SetExport\<close> on a name whose lookup is not a Cell answers nothing and leaves the
  \<open>UndefinedExport\<close> reference error pending for the caller; the modules (so every export
  table) and all Cells are as before. \<open>SetExport\<close> on a name bound to a Cell answers true,
  the only change is that Cell's value, and \<open>ResolveExport\<close> of the same name afterwards
  finds that Cell, now holding the written value.
\<close>

theorem SetExport_writes_or_throws:
  "(\<not> IsCell (Lookup (exports (modules isolate module)) export_name) \<longrightarrow>
      SetExport isolate module export_name v =
        (None, isolate\<lparr>pending_exception :=
                          JSError ReferenceError kModuleExportUndefined [export_name],
                        pending_location := None\<rparr>) \<and>
      modules (snd (SetExport isolate module export_name v)) = modules isolate \<and>
      cells (snd (SetExport isolate module export_name v)) = cells isolate) \<and>
   (Lookup (exports (modules isolate module)) export_name = Cell c \<longrightarrow>
      SetExport isolate module export_name v =
        (Some True, isolate\<lparr>cells := (cells isolate)(c \<mapsto> v)\<rparr>) \<and>
      modules (snd (SetExport isolate module export_name v)) = modules isolate \<and>
      fst (ResolveExport (snd (SetExport isolate module export_name v))
             module sp export_name loc mr) = Some (Cell c) \<and>
      cells (snd (ResolveExport (snd (SetExport isolate module export_name v))
             module sp export_name loc mr)) c = Some v)"
  by (simp add: SetExport_no_cell SetExport_cell ResolveExport_cell)

theorem SetExport_writes_or_throws_witness:
  "\<not> IsCell (Lookup (exports (modules scenario_linked 0)) ''z'') \<and>
   SetExport scenario_linked 0 ''z'' (Smi 1) =
     (None, scenario_linked\<lparr>pending_exception :=
                               JSError ReferenceError kModuleExportUndefined [''z''],
                             pending_location := None\<rparr>) \<and>
   cells (snd (SetExport scenario_linked 0 ''z'' (Smi 1))) = cells scenario_linked \<and>
   Lookup (exports (modules scenario_linked 0)) ''a'' = Cell 0 \<and>
   SetExport scenario_linked 0 ''a'' (Smi 42) =
     (Some True, scenario_linked\<lparr>cells := (cells scenario_linked)(0 \<mapsto> Smi 42)\<rparr>) \<and>
   fst (ResolveExport (snd (SetExport scenario_linked 0 ''a'' (Smi 42)))
          0 ''main'' ''a'' source_location True) = Some (Cell 0) \<and>
   cells (snd (ResolveExport (snd (SetExport scenario_linked 0 ''a'' (Smi 42)))
          0 ''main'' ''a'' source_location True)) 0 = Some (Smi 42)"
proof -
  have z: "\<not> IsCell (Lookup (exports (modules scenario_linked 0)) ''z'')"
    by (simp add: Lookup_def scenario_defs)
  have a: "Lookup (exports (modules scenario_linked 0)) ''a'' = Cell 0"
    by (simp add: Lookup_def scenario_defs)
  from z a
    SetExport_writes_or_throws [of scenario_linked 0 "''z''" "Smi 1"]
    SetExport_writes_or_throws [of scenario_linked 0 "''a''" "Smi 42" 0 "''main''"
      source_location True]
  show ?thesis by blast
qed

text \<open>
  C6. \<open>PrepareInstantiate\<close> aborts on the fatal assertion exactly when a declared name is
  repeated or already has an entry in the table. When the declared names are pairwise
  distinct and the table starts empty this cannot happen: the operation answers true, the
  key set of the table is the set of declared names, the i-th declared name is bound to
  the i-th newly allocated Cell (an address not handed out before, one Cell per name),
  every new Cell holds undefined, and the Cells that existed before are untouched.
\<close>

theorem PrepareInstantiate_creates_cells:
  "(PrepareInstantiate s m context = Fatal \<longleftrightarrow>
      \<not> (distinct (export_names (modules s m)) \<and>
         (\<forall>n\<in>set (export_names (modules s m)).
            IsTheHole (Lookup (exports (modules s m)) n)))) \<and>
   (distinct (export_names (modules s m)) \<and> exports (modules s m) = Map.empty \<longrightarrow>
      (\<exists>s'. PrepareInstantiate s m context = Done (True, s') \<and>
            dom (exports (modules s' m)) = set (export_names (modules s m)) \<and>
            (\<forall>i<length (export_names (modules s m)).
               exports (modules s' m) (export_names (modules s m) ! i)
                 = Some (Cell (next_address s + i)) \<and>
               cells s' (next_address s + i) = Some Undefined) \<and>
            next_address s' = next_address s + length (export_names (modules s m)) \<and>
            (\<forall>a<next_address s. cells s' a = cells s a)))"
proof (intro conjI impI)
  show "PrepareInstantiate s m context = Fatal \<longleftrightarrow>
      \<not> (distinct (export_names (modules s m)) \<and>
         (\<forall>n\<in>set (export_names (modules s m)).
            IsTheHole (Lookup (exports (modules s m)) n)))"
    by (simp add: PrepareInstantiate_char Let_def)
next
  assume fresh: "distinct (export_names (modules s m)) \<and> exports (modules s m) = Map.empty"
  let ?ns = "export_names (modules s m)"
  let ?s' = "set_exports
         (s\<lparr>cells := (\<lambda>a. if next_address s \<le> a \<and> a < next_address s + length ?ns
                            then Some Undefined else cells s a),
            next_address := next_address s + length ?ns\<rparr>) m
         (Map.empty ++ map_of (zip ?ns (map Cell [next_address s..<next_address s + length ?ns])))"
  have run: "PrepareInstantiate s m context = Done (True, ?s')"
    using fresh by (simp add: PrepareInstantiate_fresh_module)
  have ex: "exports (modules ?s' m)
            = Map.empty ++ map_of (zip ?ns (map Cell [next_address s..<next_address s + length ?ns]))"
    by (simp add: set_exports_def update_module_def)
  have "dom (exports (modules ?s' m)) = set ?ns"
    unfolding ex by (simp only: table_dom) simp
  moreover
  have "\<forall>i<length ?ns.
          exports (modules ?s' m) (?ns ! i) = Some (Cell (next_address s + i)) \<and>
          cells ?s' (next_address s + i) = Some Undefined"
  proof (intro allI impI conjI)
    fix i assume i: "i < length ?ns"
    then show "exports (modules ?s' m) (?ns ! i) = Some (Cell (next_address s + i))"
      unfolding ex using fresh by (simp only: table_declared)
    show "cells ?s' (next_address s + i) = Some Undefined"
      using i by (simp add: set_exports_def update_module_def)
  qed
  moreover have "next_address ?s' = next_address s + length ?ns"
    by (simp add: set_exports_def update_module_def)
  moreover have "\<forall>a<next_address s. cells ?s' a = cells s a"
    by (simp add: set_exports_def update_module_def)
  ultimately
  show "\<exists>s'. PrepareInstantiate s m context = Done (True, s') \<and>
            dom (exports (modules s' m)) = set ?ns \<and>
            (\<forall>i<length ?ns.
               exports (modules s' m) (?ns ! i) = Some (Cell (next_address s + i)) \<and>
               cells s' (next_address s + i) = Some Undefined) \<and>
            next_address s' = next_address s + length ?ns \<and>
            (\<forall>a<next_address s. cells s' a = cells s a)"
    using run by blast
qed

theorem PrepareInstantiate_creates_cells_witness:
  "distinct (export_names (modules scenario_isolate 0)) \<and>
   exports (modules scenario_isolate 0) = Map.empty \<and>
   (\<exists>s'. PrepareInstantiate scenario_isolate 0 0 = Done (True, s') \<and>
         dom (exports (modules s' 0)) = {''a'', ''b''} \<and>
         exports (modules s' 0) ''a'' = Some (Cell 0) \<and>
         exports (modules s' 0) ''b'' = Some (Cell 1) \<and>
         cells s' 0 = Some Undefined \<and> cells s' 1 = Some Undefined \<and>
         next_address s' = 2) \<and>
   \<not> IsTheHole (Lookup (exports (modules scenario_prepared 0)) ''a'') \<and>
   PrepareInstantiate scenario_prepared 0 0 = Fatal"
proof -
  have names: "export_names (modules scenario_isolate 0) = [''a'', ''b'']"
    by (simp add: scenario_defs)
  have fresh: "distinct (export_names (modules scenario_isolate 0)) \<and>
               exports (modules scenario_isolate 0) = Map.empty"
    by (simp add: scenario_defs)
  have start: "next_address scenario_isolate = 0"
    by (simp add: scenario_defs)
  from fresh PrepareInstantiate_creates_cells [of scenario_isolate 0 0]
  obtain s' where run: "PrepareInstantiate scenario_isolate 0 0 = Done (True, s')"
    and keys: "dom (exports (modules s' 0)) = set (export_names (modules scenario_isolate 0))"
    and each: "\<forall>i<length (export_names (modules scenario_isolate 0)).
               exports (modules s' 0) (export_names (modules scenario_isolate 0) ! i)
                 = Some (Cell (next_address scenario_isolate + i)) \<and>
               cells s' (next_address scenario_isolate + i) = Some Undefined"
    and nxt: "next_address s' =
              next_address scenario_isolate + length (export_names (modules scenario_isolate 0))"
    by blast
  from each have each':
    "\<And>i. i < 2 \<Longrightarrow> exports (modules s' 0) ([''a'', ''b''] ! i) = Some (Cell i) \<and>
                    cells s' i = Some Undefined"
    unfolding names start by simp
  from each' [of 0] each' [of 1]
  have "exports (modules s' 0) ''a'' = Some (Cell 0) \<and> cells s' 0 = Some Undefined \<and>
        exports (modules s' 0) ''b'' = Some (Cell 1) \<and> cells s' 1 = Some Undefined"
    by simp
  moreover have "dom (exports (modules s' 0)) = {''a'', ''b''}"
    using keys unfolding names by auto
  moreover have "next_address s' = 2"
    using nxt unfolding names start by simp
  ultimately
  have first: "\<exists>s'. PrepareInstantiate scenario_isolate 0 0 = Done (True, s') \<and>
         dom (exports (modules s' 0)) = {''a'', ''b''} \<and>
         exports (modules s' 0) ''a'' = Some (Cell 0) \<and>
         exports (modules s' 0) ''b'' = Some (Cell 1) \<and>
         cells s' 0 = Some Undefined \<and> cells s' 1 = Some Undefined \<and>
         next_address s' = 2"
    using run by auto
  have bound: "\<not> IsTheHole (Lookup (exports (modules scenario_prepared 0)) ''a'')"
    by (simp add: Lookup_def scenario_defs)
  have "''a'' \<in> set (export_names (modules scenario_prepared 0))"
    by (simp add: scenario_defs)
  with bound PrepareInstantiate_creates_cells [of scenario_prepared 0 0]
  have again: "PrepareInstantiate scenario_prepared 0 0 = Fatal"
    by blast
  from fresh first bound again show ?thesis by blast
qed

text \<open>
  C1. When the host's evaluation steps succeed with a value \<open>r\<close>, leaving the isolate
  \<open>s2\<close>: if \<open>r\<close> is a promise, that very reference becomes the module's top-level
  capability, and no promise is created or changed; otherwise a promise is allocated at
  the next free address, it is fulfilled with undefined, and it becomes the module's
  top-level capability.
\<close>

theorem Evaluate_capability:
  assumes "F (evaluation_steps (modules s m)) (native_context s) m (SetStatus s m kEvaluating)
           = Done (Some r, s2)"
  shows "\<exists>s'. Evaluate F s m = Done (Some r, s') \<and>
           (IsJSPromise r \<longrightarrow>
              top_level_capability (modules s' m) = r \<and>
              promises s' = promises s2 \<and> next_address s' = next_address s2) \<and>
           (\<not> IsJSPromise r \<longrightarrow>
              top_level_capability (modules s' m) = JSPromise (next_address s2) \<and>
              promises s' = (promises s2)
                (next_address s2 \<mapsto> \<lparr>promise_status = kFulfilled, promise_result = Undefined\<rparr>) \<and>
              next_address s' = Suc (next_address s2))"
  by (cases "IsJSPromise r") (simp_all add: Evaluate_success [of F s m r s2, OF assms])

theorem Evaluate_capability_witness:
  "(\<exists>s'. Evaluate (\<lambda>_. host_sets_a) scenario_linked 0 = Done (Some (Smi 7), s') \<and>
         top_level_capability (modules s' 0) = JSPromise 2 \<and>
         promises s' 2 = Some \<lparr>promise_status = kFulfilled, promise_result = Undefined\<rparr>) \<and>
   (\<exists>s'. Evaluate (\<lambda>_. host_returns_promise) scenario_linked 0
           = Done (Some (JSPromise 2), s') \<and>
         top_level_capability (modules s' 0) = JSPromise 2 \<and>
         promises s' 2 = Some \<lparr>promise_status = kPending, promise_result = Undefined\<rparr>)"
proof -
  have a: "next_address scenario_A_host = 2"
    by (simp add: scenario_defs)
  have c: "promises scenario_C_host 2
           = Some \<lparr>promise_status = kPending, promise_result = Undefined\<rparr>"
    by (simp add: scenario_defs)
  from Evaluate_capability [of "\<lambda>_. host_sets_a" scenario_linked 0 "Smi 7" scenario_A_host,
      OF scenario_A_steps]
  have "\<exists>s'. Evaluate (\<lambda>_. host_sets_a) scenario_linked 0 = Done (Some (Smi 7), s') \<and>
         top_level_capability (modules s' 0) = JSPromise 2 \<and>
         promises s' 2 = Some \<lparr>promise_status = kFulfilled, promise_result = Undefined\<rparr>"
    by (auto simp: a)
  moreover
  from Evaluate_capability [of "\<lambda>_. host_returns_promise" scenario_linked 0 "JSPromise 2"
      scenario_C_host, OF scenario_C_steps]
  have "\<exists>s'. Evaluate (\<lambda>_. host_returns_promise) scenario_linked 0
           = Done (Some (JSPromise 2), s') \<and>
         top_level_capability (modules s' 0) = JSPromise 2 \<and>
         promises s' 2 = Some \<lparr>promise_status = kPending, promise_result = Undefined\<rparr>"
    by (auto simp: c)
  ultimately show ?thesis by blast
qed

text \<open>
  C3. When the host's evaluation steps fail (an empty result, leaving the isolate \<open>s2\<close>
  with the scheduled exception), \<open>Evaluate\<close> answers the empty handle. The exception the
  host scheduled is made pending and recorded on the module, by one \<open>RecordError\<close>; the
  status is not \<open>Evaluated\<close>; \<open>Evaluate\<close> does not write the top-level capability (it is
  what the host left, undefined for a module never evaluated before) and no promise is
  created.
\<close>

theorem Evaluate_host_failure:
  assumes "F (evaluation_steps (modules s m)) (native_context s) m (SetStatus s m kEvaluating)
           = Done (None, s2)"
  shows "\<exists>s'. Evaluate F s m = Done (None, s') \<and>
           s' = RecordError (PromoteScheduledException s2) m (scheduled_exception s2) \<and>
           exception (modules s' m) = scheduled_exception s2 \<and>
           pending_exception s' = scheduled_exception s2 \<and>
           status (modules s' m) \<noteq> kEvaluated \<and>
           top_level_capability (modules s' m) = top_level_capability (modules s2 m) \<and>
           promises s' = promises s2 \<and>
           next_address s' = next_address s2"
  by (simp add: Evaluate_failure [of F s m s2, OF assms] RecordError_def
      PromoteScheduledException_def update_module_def)

theorem Evaluate_host_failure_witness:
  "\<exists>s'. Evaluate (\<lambda>_. host_throws) scenario_linked 0 = Done (None, s') \<and>
        exception (modules s' 0) = StringObj ''boom'' \<and>
        status (modules s' 0) \<noteq> kEvaluated \<and>
        top_level_capability (modules s' 0) = Undefined \<and>
        promises s' = Map.empty"
proof -
  have b: "scheduled_exception scenario_B_host = StringObj ''boom''"
    "top_level_capability (modules scenario_B_host 0) = Undefined"
    "promises scenario_B_host = Map.empty"
    by (simp_all add: scenario_defs)
  from Evaluate_host_failure [of "\<lambda>_. host_throws" scenario_linked 0 scenario_B_host,
      OF scenario_B_steps]
  show ?thesis by (auto simp: b)
qed





text \<open>
  C5. After \<open>PrepareInstantiate\<close> on a module whose table was empty: for a declared name
  \<open>ResolveExport\<close> answers the Cell bound to it and changes nothing; for any other name it
  answers the empty handle, with the isolate unchanged when \<open>must_resolve\<close> is false, and
  with the \<open>UnresolvableExport\<close> syntax error (carrying the module specifier and the
  export name) pending at the given location when \<open>must_resolve\<close> is true.
\<close>

theorem ResolveExport_after_PrepareInstantiate:
  assumes "exports (modules s0 m) = Map.empty"
      and "PrepareInstantiate s0 m context = Done (ok, s)"
  shows "(n \<in> set (export_names (modules s0 m)) \<longrightarrow>
            (\<exists>c. exports (modules s m) n = Some (Cell c) \<and>
                 ResolveExport s m sp n loc mr = (Some (Cell c), s))) \<and>
         (n \<notin> set (export_names (modules s0 m)) \<longrightarrow>
            ResolveExport s m sp n loc False = (None, s) \<and>
            ResolveExport s m sp n loc True =
              (None, s\<lparr>pending_exception := JSError SyntaxError kUnresolvableExport [sp, n],
                       pending_location := Some loc\<rparr>))"
proof -
  let ?ns = "export_names (modules s0 m)"
  let ?a = "next_address s0"
  from PrepareInstantiate_Done [OF assms(2)]
  have dist: "distinct ?ns"
    and tab: "exports (modules s m)
              = Map.empty ++ map_of (zip ?ns (map Cell [?a..<?a + length ?ns]))"
    by (simp_all add: assms(1) set_exports_def update_module_def)
  show ?thesis
  proof (intro conjI impI)
    assume "n \<in> set ?ns"
    then obtain i where i: "i < length ?ns" and n: "?ns ! i = n"
      by (auto simp: in_set_conv_nth)
    have bound: "exports (modules s m) n = Some (Cell (?a + i))"
      unfolding tab using table_declared [OF dist i, of Map.empty ?a] n by simp
    then have "Lookup (exports (modules s m)) n = Cell (?a + i)"
      by (simp add: Lookup_def)
    then have "ResolveExport s m sp n loc mr = (Some (Cell (?a + i)), s)"
      by (rule ResolveExport_cell)
    with bound
    show "\<exists>c. exports (modules s m) n = Some (Cell c) \<and>
              ResolveExport s m sp n loc mr = (Some (Cell c), s)"
      by blast
  next
    assume "n \<notin> set ?ns"
    then have "exports (modules s m) n = None"
      unfolding tab using table_undeclared [of n ?ns Map.empty ?a] by simp
    then have none: "\<not> IsCell (Lookup (exports (modules s m)) n)"
      by (simp add: Lookup_def)
    show "ResolveExport s m sp n loc False = (None, s)"
      using ResolveExport_no_cell [OF none, of sp loc False] by simp
    show "ResolveExport s m sp n loc True =
              (None, s\<lparr>pending_exception := JSError SyntaxError kUnresolvableExport [sp, n],
                       pending_location := Some loc\<rparr>)"
      using ResolveExport_no_cell [OF none, of sp loc True] by simp
  qed
qed

theorem ResolveExport_after_PrepareInstantiate_witness:
  "exports (modules scenario_isolate 0) = Map.empty \<and>
   PrepareInstantiate scenario_isolate 0 0 = Done (True, scenario_prepared) \<and>
   ''b'' \<in> set (export_names (modules scenario_isolate 0)) \<and>
   (\<exists>c. exports (modules scenario_prepared 0) ''b'' = Some (Cell c) \<and>
        ResolveExport scenario_prepared 0 ''main'' ''b'' source_location True
          = (Some (Cell c), scenario_prepared)) \<and>
   ''z'' \<notin> set (export_names (modules scenario_isolate 0)) \<and>
   ResolveExport scenario_prepared 0 ''main'' ''z'' source_location False
     = (None, scenario_prepared) \<and>
   ResolveExport scenario_prepared 0 ''main'' ''z'' source_location True
     = (None, scenario_prepared
          \<lparr>pending_exception := JSError SyntaxError kUnresolvableExport [''main'', ''z''],
           pending_location := Some source_location\<rparr>)"
proof -
  have e: "exports (modules scenario_isolate 0) = Map.empty"
    by (simp add: scenario_defs)
  have b: "''b'' \<in> set (export_names (modules scenario_isolate 0))"
    by (simp add: scenario_defs)
  have z: "''z'' \<notin> set (export_names (modules scenario_isolate 0))"
    by (simp add: scenario_defs)
  from e b z scenario_prepare
    ResolveExport_after_PrepareInstantiate [OF e scenario_prepare,
      of "''b''" "''main''" source_location True]
    ResolveExport_after_PrepareInstantiate [OF e scenario_prepare,
      of "''z''" "''main''" source_location True]
  show ?thesis by blast
qed

text \<open>
  C9. \<open>ResolveExport\<close> is idempotent: a second call with the same name answers what the
  first did, since no call of \<open>ResolveExport\<close> or \<open>SetExport\<close> changes any module (so no
  export table), and \<open>SetExport\<close> in between does not change the answer either. After
  \<open>PrepareInstantiate\<close> on a module whose table was empty, both calls for a declared name
  answer the same Cell reference.
\<close>

theorem ResolveExport_idempotent:
  "fst (ResolveExport (snd (ResolveExport s m sp n loc mr)) m sp n loc mr)
     = fst (ResolveExport s m sp n loc mr) \<and>
   modules (snd (ResolveExport s m sp n loc mr)) = modules s \<and>
   modules (snd (SetExport s m n' v)) = modules s \<and>
   fst (ResolveExport (snd (SetExport s m n' v)) m sp n loc mr)
     = fst (ResolveExport s m sp n loc mr) \<and>
   (exports (modules s0 m) = Map.empty \<and>
    PrepareInstantiate s0 m context = Done (ok, s) \<and>
    n \<in> set (export_names (modules s0 m)) \<longrightarrow>
      (\<exists>c. fst (ResolveExport s m sp n loc mr) = Some (Cell c) \<and>
           fst (ResolveExport (snd (ResolveExport s m sp n loc mr)) m sp n loc mr)
             = Some (Cell c)))"
proof (intro conjI impI)
  show twice: "fst (ResolveExport (snd (ResolveExport s m sp n loc mr)) m sp n loc mr)
     = fst (ResolveExport s m sp n loc mr)"
    by (simp add: ResolveExport_fst ResolveExport_modules)
  show "modules (snd (ResolveExport s m sp n loc mr)) = modules s"
    by (rule ResolveExport_modules)
  show "modules (snd (SetExport s m n' v)) = modules s"
    by (rule SetExport_modules)
  show "fst (ResolveExport (snd (SetExport s m n' v)) m sp n loc mr)
     = fst (ResolveExport s m sp n loc mr)"
    by (simp add: ResolveExport_fst SetExport_modules)
  assume prem: "exports (modules s0 m) = Map.empty \<and>
    PrepareInstantiate s0 m context = Done (ok, s) \<and>
    n \<in> set (export_names (modules s0 m))"
  let ?ns = "export_names (modules s0 m)"
  let ?a = "next_address s0"
  from prem PrepareInstantiate_Done [of s0 m "context" ok s]
  have dist: "distinct ?ns"
    and tab: "exports (modules s m)
              = Map.empty ++ map_of (zip ?ns (map Cell [?a..<?a + length ?ns]))"
    by (simp_all add: set_exports_def update_module_def)
  from prem obtain i where i: "i < length ?ns" and n: "?ns ! i = n"
    by (auto simp: in_set_conv_nth)
  have "exports (modules s m) n = Some (Cell (?a + i))"
    unfolding tab using table_declared [OF dist i, of Map.empty ?a] n by simp
  then have "Lookup (exports (modules s m)) n = Cell (?a + i)"
    by (simp add: Lookup_def)
  then have "fst (ResolveExport s m sp n loc mr) = Some (Cell (?a + i))"
    by (simp add: ResolveExport_fst)
  with twice
  show "\<exists>c. fst (ResolveExport s m sp n loc mr) = Some (Cell c) \<and>
           fst (ResolveExport (snd (ResolveExport s m sp n loc mr)) m sp n loc mr)
             = Some (Cell c)"
    by simp
qed

theorem ResolveExport_idempotent_witness:
  "exports (modules scenario_isolate 0) = Map.empty \<and>
   PrepareInstantiate scenario_isolate 0 0 = Done (True, scenario_prepared) \<and>
   ''a'' \<in> set (export_names (modules scenario_isolate 0)) \<and>
   (\<exists>c. fst (ResolveExport scenario_prepared 0 ''main'' ''a'' source_location True)
          = Some (Cell c) \<and>
        fst (ResolveExport
               (snd (ResolveExport scenario_prepared 0 ''main'' ''a'' source_location True))
               0 ''main'' ''a'' source_location True) = Some (Cell c))"
proof -
  have e: "exports (modules scenario_isolate 0) = Map.empty"
    by (simp add: scenario_defs)
  have a: "''a'' \<in> set (export_names (modules scenario_isolate 0))"
    by (simp add: scenario_defs)
  from e a scenario_prepare
    ResolveExport_idempotent [of scenario_prepared 0 "''main''" "''a''" source_location True
      _ _ scenario_isolate 0 True]
  show ?thesis by blast
qed

text \<open>
  C2 (as amended). For a module declaring the exports \<open>a\<close> and \<open>b\<close>, with an empty table,
  whose host procedure calls \<open>SetExportStrict(module, "a", 42)\<close> and returns 7:
  instantiation succeeds, \<open>Evaluate\<close> answers 7, \<open>ResolveExport\<close> of \<open>a\<close> answers a Cell
  that holds 42, and the module's top-level capability is a promise made by \<open>Evaluate\<close>
  and fulfilled with undefined; the 7 is not stored in it.
\<close>

theorem scenario_A_capability_undefined:
  assumes "export_names (modules s m) = [''a'', ''b'']"
      and "exports (modules s m) = Map.empty"
      and "F (evaluation_steps (modules s m)) = host_sets_a"
  shows "\<exists>s1 s2 s3.
           PrepareInstantiate s m context = Done (True, s1) \<and>
           FinishInstantiate s1 m = (True, s2) \<and>
           Evaluate F s2 m = Done (Some (Smi 7), s3) \<and>
           ResolveExport s3 m sp ''a'' loc mr = (Some (Cell (next_address s)), s3) \<and>
           cells s3 (next_address s) = Some (Smi 42) \<and>
           top_level_capability (modules s3 m) = JSPromise (next_address s + 2) \<and>
           promises s3 (next_address s + 2)
             = Some \<lparr>promise_status = kFulfilled, promise_result = Undefined\<rparr>"
proof -
  let ?a = "next_address s"
  let ?s1 = "s\<lparr>modules := (modules s)
                 (m := (modules s m)\<lparr>exports := [''a'' \<mapsto> Cell ?a, ''b'' \<mapsto> Cell (Suc ?a)]\<rparr>),
               cells := (cells s)(?a \<mapsto> Undefined, Suc ?a \<mapsto> Undefined),
               next_address := Suc (Suc ?a)\<rparr>"
  let ?s2 = "SetStatus ?s1 m kLinked"
  let ?h = "Cell_set_value (SetStatus ?s2 m kEvaluating) ?a (Smi 42)"
  have prepare: "PrepareInstantiate s m context = Done (True, ?s1)"
    by (simp add: PrepareInstantiate_def assms NewCell_def Lookup_def Put_def
        set_exports_def update_module_def Let_def)
  have finish: "FinishInstantiate ?s1 m = (True, ?s2)"
    by (simp add: FinishInstantiate_def)
  have steps: "F (evaluation_steps (modules ?s2 m)) = host_sets_a"
    using assms(3) by (simp add: SetStatus_def update_module_def)
  have host: "host_sets_a (native_context ?s2) m (SetStatus ?s2 m kEvaluating)
              = Done (Some (Smi 7), ?h)"
    by (simp add: host_sets_a_def SetExportStrict_def SetExport_def Lookup_def
        SetStatus_def update_module_def Let_def)
  let ?s3 = "?h\<lparr>modules := (modules ?h)
                 (m := (modules ?h m)\<lparr>status := kEvaluated,
                                       top_level_capability := JSPromise (next_address ?h)\<rparr>),
               promises := (promises ?h)
                 (next_address ?h \<mapsto> \<lparr>promise_status = kFulfilled, promise_result = Undefined\<rparr>),
               next_address := Suc (next_address ?h)\<rparr>"
  have evaluate: "Evaluate F ?s2 m = Done (Some (Smi 7), ?s3)"
    using Evaluate_success [of F ?s2 m "Smi 7" ?h] host by (simp add: steps)
  have nxt: "next_address ?h = ?a + 2"
    by (simp add: Cell_set_value_def SetStatus_def update_module_def)
  have look: "Lookup (exports (modules ?s3 m)) ''a'' = Cell ?a"
    by (simp add: Lookup_def Cell_set_value_def SetStatus_def update_module_def)
  have resolve: "ResolveExport ?s3 m sp ''a'' loc mr = (Some (Cell ?a), ?s3)"
    using look by (rule ResolveExport_cell)
  have cell: "cells ?s3 ?a = Some (Smi 42)"
    by (simp add: Cell_set_value_def)
  have cap: "top_level_capability (modules ?s3 m) = JSPromise (?a + 2)"
    by (simp add: nxt)
  have prom: "promises ?s3 (?a + 2)
              = Some \<lparr>promise_status = kFulfilled, promise_result = Undefined\<rparr>"
    by (simp add: nxt)
  from prepare finish evaluate resolve cell cap prom show ?thesis
    by blast
qed

theorem scenario_A_capability_undefined_witness:
  "export_names (modules scenario_isolate 0) = [''a'', ''b''] \<and>
   exports (modules scenario_isolate 0) = Map.empty \<and>
   (\<exists>s1 s2 s3.
      PrepareInstantiate scenario_isolate 0 0 = Done (True, s1) \<and>
      FinishInstantiate s1 0 = (True, s2) \<and>
      Evaluate (\<lambda>_. host_sets_a) s2 0 = Done (Some (Smi 7), s3) \<and>
      ResolveExport s3 0 ''main'' ''a'' source_location True = (Some (Cell 0), s3) \<and>
      cells s3 0 = Some (Smi 42) \<and>
      top_level_capability (modules s3 0) = JSPromise 2 \<and>
      promises s3 2 = Some \<lparr>promise_status = kFulfilled, promise_result = Undefined\<rparr>)"
proof -
  have n: "export_names (modules scenario_isolate 0) = [''a'', ''b'']"
    and e: "exports (modules scenario_isolate 0) = Map.empty"
    and a: "next_address scenario_isolate = 0"
    by (simp_all add: scenario_defs)
  from scenario_A_capability_undefined [of scenario_isolate 0 "\<lambda>_. host_sets_a" 0
      "''main''" source_location True, OF n e]
  have "\<exists>s1 s2 s3.
      PrepareInstantiate scenario_isolate 0 0 = Done (True, s1) \<and>
      FinishInstantiate s1 0 = (True, s2) \<and>
      Evaluate (\<lambda>_. host_sets_a) s2 0 = Done (Some (Smi 7), s3) \<and>
      ResolveExport s3 0 ''main'' ''a'' source_location True = (Some (Cell 0), s3) \<and>
      cells s3 0 = Some (Smi 42) \<and>
      top_level_capability (modules s3 0) = JSPromise 2 \<and>
      promises s3 2 = Some \<lparr>promise_status = kFulfilled, promise_result = Undefined\<rparr>"
    unfolding a by (simp add: numeral_2_eq_2)
  with n e show ?thesis by blast
qed

text \<open>
  C2 as stated fails: in Scenario A the capability that \<open>Evaluate\<close> makes is fulfilled
  with undefined, not with the 7 the host returned.
\<close>

theorem scenario_A_capability_counterexample:
  "PrepareInstantiate scenario_isolate 0 0 = Done (True, scenario_prepared) \<and>
   FinishInstantiate scenario_prepared 0 = (True, scenario_linked) \<and>
   Evaluate (\<lambda>_. host_sets_a) scenario_linked 0 = Done (Some (Smi 7), scenario_A_evaluated) \<and>
   top_level_capability (modules scenario_A_evaluated 0) = JSPromise 2 \<and>
   promises scenario_A_evaluated 2
     = Some \<lparr>promise_status = kFulfilled, promise_result = Undefined\<rparr> \<and>
   promises scenario_A_evaluated 2
     \<noteq> Some \<lparr>promise_status = kFulfilled, promise_result = Smi 7\<rparr>"
  by (simp add: scenario_prepare scenario_finish scenario_A_evaluate)
     (simp add: scenario_defs)

text \<open>
  C7 (as amended). \<open>PrepareInstantiate\<close> leaves the status as it found it: no transition
  from \<open>Unlinked\<close> to \<open>Linking\<close> happens inside it. \<open>FinishInstantiate\<close> answers true and
  sets \<open>Linked\<close>. \<open>Evaluate\<close> sets \<open>Evaluating\<close> before the host procedure runs (a host that
  reports the status it sees reports \<open>Evaluating\<close>), and a successful host procedure
  yields \<open>Evaluated\<close>. The status does not go back across \<open>FinishInstantiate\<close> when it was
  at most \<open>Linked\<close> before, nor across \<open>Evaluate\<close> when the module was not \<open>Errored\<close>
  before.
\<close>

theorem status_transitions:
  "(PrepareInstantiate s m context = Done (ok, s1) \<longrightarrow>
      status (modules s1 m) = status (modules s m)) \<and>
   fst (FinishInstantiate s m) = True \<and>
   status (modules (snd (FinishInstantiate s m)) m) = kLinked \<and>
   (status_rank (status (modules s m)) \<le> status_rank kLinked \<longrightarrow>
      status_rank (status (modules s m))
        \<le> status_rank (status (modules (snd (FinishInstantiate s m)) m))) \<and>
   (\<exists>s'. Evaluate (\<lambda>_. host_reports_status) s m
            = Done (Some (Smi (int (status_rank kEvaluating))), s')) \<and>
   (F (evaluation_steps (modules s m)) (native_context s) m (SetStatus s m kEvaluating)
      = Done (Some r, s2) \<longrightarrow>
      (\<exists>s'. Evaluate F s m = Done (Some r, s') \<and> status (modules s' m) = kEvaluated)) \<and>
   (Evaluate F s m = Done (res, s3) \<and> status (modules s m) \<noteq> kErrored \<longrightarrow>
      status_rank (status (modules s m)) \<le> status_rank (status (modules s3 m)))"
proof (intro conjI impI)
  assume "PrepareInstantiate s m context = Done (ok, s1)"
  from PrepareInstantiate_Done(4) [OF this]
  show "status (modules s1 m) = status (modules s m)"
    by (simp add: set_exports_def update_module_def)
next
  show "fst (FinishInstantiate s m) = True"
    by (simp add: FinishInstantiate_def)
next
  show linked: "status (modules (snd (FinishInstantiate s m)) m) = kLinked"
    by (simp add: FinishInstantiate_def SetStatus_def update_module_def)
  assume "status_rank (status (modules s m)) \<le> status_rank kLinked"
  then show "status_rank (status (modules s m))
        \<le> status_rank (status (modules (snd (FinishInstantiate s m)) m))"
    by (simp only: linked)
next
  have "host_reports_status (native_context s) m (SetStatus s m kEvaluating)
        = Done (Some (Smi (int (status_rank kEvaluating))), SetStatus s m kEvaluating)"
    by (simp add: host_reports_status_def SetStatus_def update_module_def)
  from Evaluate_success [of "\<lambda>_. host_reports_status" s m _ "SetStatus s m kEvaluating", OF this]
  show "\<exists>s'. Evaluate (\<lambda>_. host_reports_status) s m
            = Done (Some (Smi (int (status_rank kEvaluating))), s')"
    by blast
next
  assume "F (evaluation_steps (modules s m)) (native_context s) m (SetStatus s m kEvaluating)
      = Done (Some r, s2)"
  from Evaluate_success [of F s m r s2, OF this]
  show "\<exists>s'. Evaluate F s m = Done (Some r, s') \<and> status (modules s' m) = kEvaluated"
    by (cases "IsJSPromise r") simp_all
next
  assume run: "Evaluate F s m = Done (res, s3) \<and> status (modules s m) \<noteq> kErrored"
  then have before: "status_rank (status (modules s m)) \<le> 4"
    by (cases "status (modules s m)") simp_all
  show "status_rank (status (modules s m)) \<le> status_rank (status (modules s3 m))"
  proof (cases "F (evaluation_steps (modules s m)) (native_context s) m
                  (SetStatus s m kEvaluating)")
    case Fatal
    from Evaluate_fatal [of F s m, OF this] run show ?thesis by simp
  next
    case (Done p)
    obtain ro h where p: "p = (ro, h)" by (cases p)
    show ?thesis
    proof (cases ro)
      case None
      from Evaluate_failure [of F s m h] Done p None run
      have "status (modules s3 m) = kErrored" by auto
      with before show ?thesis by simp
    next
      case (Some r)
      from Evaluate_success [of F s m r h] Done p Some run
      have "status (modules s3 m) = kEvaluated" by (cases "IsJSPromise r") auto
      with before show ?thesis by simp
    qed
  qed
qed

theorem status_transitions_witness:
  "PrepareInstantiate scenario_isolate 0 0 = Done (True, scenario_prepared) \<and>
   status (modules scenario_prepared 0) = status (modules scenario_isolate 0) \<and>
   status_rank (status (modules scenario_prepared 0)) \<le> status_rank kLinked \<and>
   status_rank (status (modules scenario_prepared 0))
     \<le> status_rank (status (modules (snd (FinishInstantiate scenario_prepared 0)) 0)) \<and>
   host_sets_a (native_context scenario_linked) 0 (SetStatus scenario_linked 0 kEvaluating)
     = Done (Some (Smi 7), scenario_A_host) \<and>
   (\<exists>s'. Evaluate (\<lambda>_. host_sets_a) scenario_linked 0 = Done (Some (Smi 7), s') \<and>
         status (modules s' 0) = kEvaluated) \<and>
   Evaluate (\<lambda>_. host_sets_a) scenario_linked 0 = Done (Some (Smi 7), scenario_A_evaluated) \<and>
   status (modules scenario_linked 0) \<noteq> kErrored \<and>
   status_rank (status (modules scenario_linked 0))
     \<le> status_rank (status (modules scenario_A_evaluated 0))"
proof -
  have u: "status_rank (status (modules scenario_prepared 0)) \<le> status_rank kLinked"
    and l: "status (modules scenario_linked 0) \<noteq> kErrored"
    by (simp_all add: scenario_defs)
  from u l scenario_prepare scenario_A_steps scenario_A_evaluate
    status_transitions [of scenario_isolate 0 0 True scenario_prepared]
    status_transitions [of scenario_prepared 0]
    status_transitions [of scenario_linked 0 _ _ _ "\<lambda>_. host_sets_a" "Smi 7" scenario_A_host
      "Some (Smi 7)" scenario_A_evaluated]
  show ?thesis by blast
qed

text \<open>
  C7 as stated fails: after \<open>PrepareInstantiate\<close> an \<open>Unlinked\<close> module is still \<open>Unlinked\<close>,
  not \<open>Linking\<close>; and \<open>FinishInstantiate\<close> on an \<open>Evaluated\<close> module takes the status back
  to \<open>Linked\<close>.
\<close>

theorem status_transitions_counterexample:
  "status (modules scenario_isolate 0) = kUnlinked \<and>
   PrepareInstantiate scenario_isolate 0 0 = Done (True, scenario_prepared) \<and>
   status (modules scenario_prepared 0) = kUnlinked \<and>
   status (modules scenario_prepared 0) \<noteq> kLinking \<and>
   status (modules scenario_A_evaluated 0) = kEvaluated \<and>
   status (modules (snd (FinishInstantiate scenario_A_evaluated 0)) 0) = kLinked \<and>
   status_rank (status (modules (snd (FinishInstantiate scenario_A_evaluated 0)) 0))
     < status_rank (status (modules scenario_A_evaluated 0))"
  by (simp add: scenario_prepare)
     (simp add: scenario_defs FinishInstantiate_def SetStatus_def update_module_def)

end
